theory Spec2Isabelle
  imports Main
begin

section \<open>PostgresDriver: values, errors and effects\<close>

text \<open>
  The driver of \<^verbatim>\<open>src/driver/PostgresDriver.ts\<close> is a class with mutable fields whose
  methods return promises. The embedding makes that explicit:
  \<^item> a JavaScript value is a \<open>jsval\<close>; a number is an integer-valued double (\<open>Num n\<close>,
    for an \<open>n\<close> that a double represents), an infinity or \<open>NaN\<close>; an object literal is
    the list of its own properties in \<^verbatim>\<open>Object.keys\<close> order;
  \<^item> objects with identity (a \<^verbatim>\<open>DatabaseConnection\<close>, the client handle inside it, a
    release function handed out by the pool) are references, and the records live in a
    store, so that two variables naming the same record alias as in the source;
  \<^item> what a method does to its collaborators (logger, client, pool, release functions)
    is appended to a list of effects, in the order of the calls;
  \<^item> the answer of a collaborator (the error or rows the client passes to a callback) is
    an argument of the method's model;
  \<^item> a method ends in an \<open>outcome\<close>: an exception thrown at the call, a rejected
    promise, or a resolved one.
\<close>

datatype jsval =
    Undefined
  | Null
  | Bool bool
  | Num int
  | NaN
  | Infinity
  | NegInfinity
  | Str string
  | Arr "jsval list"
  | Obj "(string \<times> jsval) list"
  | DateV int

type_synonym ObjectLiteral = "(string \<times> jsval) list"

type_synonym handle = nat
type_synonym release_fn = nat
type_synonym ref = nat
type_synonym client_err = string

datatype error =
    ConnectionIsNotSetError
  | TransactionAlreadyStartedError
  | TransactionNotStartedError
  | TypeError
  | SyntaxError
  | ClientError client_err

datatype 'a outcome = Thrown error | Rejected error | Resolved 'a

datatype effect =
    LogQuery string
  | LogFailedQuery string
  | LogQueryError client_err
  | ClientConnect handle
  | ClientQuery handle string "jsval list option"
  | ClientEnd handle
  | PoolEnd
  | ReleaseCallback release_fn

record DatabaseConnection =
  conn_id :: nat
  connection :: handle
  isTransactionActive :: bool
  releaseCallback :: "release_fn option"

datatype pg_pool = PgPool

record PostgresDriver =
  databaseConnection :: "ref option"
  pool :: "pg_pool option"
  databaseConnectionPool :: "ref list"
  heap :: "ref \<Rightarrow> DatabaseConnection"
  next_ref :: ref
  effects :: "effect list"

definition new_connection :: "nat \<Rightarrow> handle \<Rightarrow> DatabaseConnection" where
  "new_connection i c =
     \<lparr>conn_id = i, connection = c, isTransactionActive = False, releaseCallback = None\<rparr>"

definition initial_driver :: PostgresDriver where
  "initial_driver =
     \<lparr>databaseConnection = None, pool = None, databaseConnectionPool = [],
      heap = (\<lambda>_. new_connection 0 0), next_ref = 0, effects = []\<rparr>"

definition emit :: "effect list \<Rightarrow> PostgresDriver \<Rightarrow> PostgresDriver" where
  "emit es d = d\<lparr>effects := effects d @ es\<rparr>"

text \<open>An \<^verbatim>\<open>async\<close> method turns an exception thrown in its body into a rejection.\<close>

fun async :: "'a outcome \<times> PostgresDriver \<Rightarrow> 'a outcome \<times> PostgresDriver" where
  "async (Thrown e, d) = (Rejected e, d)"
| "async (r, d) = (r, d)"

section \<open>Array helpers\<close>

text \<open>\<^verbatim>\<open>Array.prototype.indexOf\<close>: the first index holding the element, or \<open>-1\<close>.\<close>

fun indexOf :: "'a list \<Rightarrow> 'a \<Rightarrow> int" where
  "indexOf [] x = - 1"
| "indexOf (y # ys) x =
     (if y = x then 0 else (let i = indexOf ys x in if i < 0 then - 1 else i + 1))"

text \<open>
  \<^verbatim>\<open>Array.prototype.splice(start, deleteCount)\<close> without inserted items: a negative
  \<open>start\<close> counts from the end of the array, and is clamped to its bounds.
\<close>

definition splice :: "'a list \<Rightarrow> int \<Rightarrow> nat \<Rightarrow> 'a list" where
  "splice xs start deleteCount =
     (let n = int (length xs);
          s = nat (if start < 0 then max (n + start) 0 else min start n)
      in take s xs @ drop (s + deleteCount) xs)"

section \<open>Connection manager\<close>

text \<open>
  \<^verbatim>\<open>connect\<close>: \<open>usePool\<close> is \<^verbatim>\<open>options.usePool\<close> (\<open>None\<close> for undefined), \<open>client\<close> the
  object made by \<^verbatim>\<open>new this.postgres.Client(options)\<close>, \<open>err\<close> what the client passes to
  the callback of \<^verbatim>\<open>connect\<close>.
\<close>

definition connect ::
  "bool option \<Rightarrow> handle \<Rightarrow> client_err option \<Rightarrow> PostgresDriver \<Rightarrow> unit outcome \<times> PostgresDriver"
where
  "connect usePool client err d =
     (if usePool = None \<or> usePool = Some True then
        (Resolved (), d\<lparr>pool := Some PgPool\<rparr>)
      else
        (let r = next_ref d;
             d1 = d\<lparr>heap := (heap d)(r := new_connection 1 client),
                    next_ref := Suc r,
                    databaseConnection := Some r\<rparr>;
             d2 = emit [ClientConnect client] d1
         in case err of
              Some e \<Rightarrow> (Rejected (ClientError e), d2)
            | None \<Rightarrow> (Resolved (), d2)))"

text \<open>The \<^verbatim>\<open>forEach\<close> of \<^verbatim>\<open>disconnect\<close>: the release functions called, in order.\<close>

definition release_all :: "PostgresDriver \<Rightarrow> effect list" where
  "release_all d =
     concat (map (\<lambda>r. case releaseCallback (heap d r) of
                          Some f \<Rightarrow> [ReleaseCallback f]
                        | None \<Rightarrow> [])
                 (databaseConnectionPool d))"

text \<open>
  \<^verbatim>\<open>disconnect\<close>. The field \<^verbatim>\<open>databaseConnectionPool\<close> is an array in every state, and an
  array is truthy also when empty, so the second \<^verbatim>\<open>if\<close> of the source is always taken;
  \<^verbatim>\<open>this.pool.end\<close> on an undefined \<^verbatim>\<open>this.pool\<close> throws a TypeError inside the promise
  executor, which rejects the promise. With a pool, \<open>handler_call\<close> is what
  \<^verbatim>\<open>pool.end\<close> does with the handler before it returns: \<open>None\<close> when it has not called
  it yet, \<open>Some err\<close> when it has called it, with the error \<open>err\<close> if any. An error
  passed then rejects the promise; otherwise \<^verbatim>\<open>ok()\<close>, which runs right after
  \<^verbatim>\<open>pool.end(handler)\<close> returns, resolves it, whatever the handler is given later.
\<close>

definition disconnect ::
  "client_err option option \<Rightarrow> PostgresDriver \<Rightarrow> unit outcome \<times> PostgresDriver"
where
  "disconnect handler_call d =
     (if databaseConnection d = None \<and> pool d = None then
        (Thrown ConnectionIsNotSetError, d)
      else
        (let d1 = (case databaseConnection d of
                     Some r \<Rightarrow> (emit [ClientEnd (connection (heap d r))] d)
                                 \<lparr>databaseConnection := None\<rparr>
                   | None \<Rightarrow> d);
             d2 = emit (release_all d1) d1
         in case pool d2 of
              None \<Rightarrow> (Rejected TypeError, d2)
            | Some p \<Rightarrow>
                (case handler_call of
                   Some (Some err) \<Rightarrow> Rejected (ClientError err)
                 | _ \<Rightarrow> Resolved (),
                 (emit [PoolEnd] d2)\<lparr>pool := None, databaseConnectionPool := []\<rparr>)))"

text \<open>
  \<^verbatim>\<open>retrieveDatabaseConnection\<close>: \<open>answer\<close> is what the pool passes to the callback of
  \<^verbatim>\<open>pool.connect\<close>, an error or a client with its release function. The call and its
  callback are taken as one step.
\<close>

definition retrieveDatabaseConnection ::
  "(client_err + handle \<times> release_fn) \<Rightarrow> PostgresDriver \<Rightarrow> ref outcome \<times> PostgresDriver"
where
  "retrieveDatabaseConnection answer d =
     (case pool d of
        Some p \<Rightarrow>
          (case answer of
             Inl err \<Rightarrow> (Rejected (ClientError err), d)
           | Inr (conn, release) \<Rightarrow>
               (case find (\<lambda>r. connection (heap d r) = conn) (databaseConnectionPool d) of
                  Some r \<Rightarrow>
                    (Resolved r,
                     d\<lparr>heap := (heap d)(r := (heap d r)\<lparr>releaseCallback := Some release\<rparr>)\<rparr>)
                | None \<Rightarrow>
                    (let r = next_ref d;
                         c = new_connection (length (databaseConnectionPool d)) conn
                     in (Resolved r,
                         d\<lparr>heap := (heap d)(r := c\<lparr>releaseCallback := Some release\<rparr>),
                           next_ref := Suc r,
                           databaseConnectionPool := databaseConnectionPool d @ [r]\<rparr>))))
      | None \<Rightarrow>
          (case databaseConnection d of
             Some r \<Rightarrow> (Resolved r, d)
           | None \<Rightarrow> (Thrown ConnectionIsNotSetError, d)))"

text \<open>\<^verbatim>\<open>releaseDatabaseConnection\<close>; the record keeps its release function.\<close>

definition releaseDatabaseConnection ::
  "ref \<Rightarrow> PostgresDriver \<Rightarrow> unit outcome \<times> PostgresDriver"
where
  "releaseDatabaseConnection dbConnection d =
     (case (pool d, releaseCallback (heap d dbConnection)) of
        (Some p, Some f) \<Rightarrow>
          (Resolved (),
           (emit [ReleaseCallback f] d)
             \<lparr>databaseConnectionPool :=
                splice (databaseConnectionPool d)
                       (indexOf (databaseConnectionPool d) dbConnection) 1\<rparr>)
      | _ \<Rightarrow> (Resolved (), d))"

section \<open>Query execution and transactions\<close>

text \<open>
  \<^verbatim>\<open>query\<close>: \<open>answer\<close> is what the client passes to the callback, an error or the
  \<^verbatim>\<open>rows\<close> of the result.
\<close>

definition query ::
  "ref \<Rightarrow> string \<Rightarrow> jsval list option \<Rightarrow> (client_err + jsval) \<Rightarrow> PostgresDriver
     \<Rightarrow> jsval outcome \<times> PostgresDriver"
where
  "query dbConnection sql parameters answer d =
     (if databaseConnection d = None \<and> pool d = None then
        (Thrown ConnectionIsNotSetError, d)
      else
        (let d1 = emit [LogQuery sql,
                        ClientQuery (connection (heap d dbConnection)) sql parameters] d
         in case answer of
              Inl err \<Rightarrow> (Rejected (ClientError err),
                          emit [LogFailedQuery sql, LogQueryError err] d1)
            | Inr rows \<Rightarrow> (Resolved rows, d1)))"

definition set_active :: "ref \<Rightarrow> bool \<Rightarrow> PostgresDriver \<Rightarrow> PostgresDriver" where
  "set_active r b d = d\<lparr>heap := (heap d)(r := (heap d r)\<lparr>isTransactionActive := b\<rparr>)\<rparr>"

definition beginTransaction ::
  "ref \<Rightarrow> (client_err + jsval) \<Rightarrow> PostgresDriver \<Rightarrow> unit outcome \<times> PostgresDriver"
where
  "beginTransaction dbConnection answer d =
     (if isTransactionActive (heap d dbConnection) then
        (Rejected TransactionAlreadyStartedError, d)
      else
        (case async (query dbConnection ''START TRANSACTION'' None answer d) of
           (Resolved rows, d1) \<Rightarrow> (Resolved (), set_active dbConnection True d1)
         | (Rejected e, d1) \<Rightarrow> (Rejected e, d1)
         | (Thrown e, d1) \<Rightarrow> (Rejected e, d1)))"

definition commitTransaction ::
  "ref \<Rightarrow> (client_err + jsval) \<Rightarrow> PostgresDriver \<Rightarrow> unit outcome \<times> PostgresDriver"
where
  "commitTransaction dbConnection answer d =
     (if \<not> isTransactionActive (heap d dbConnection) then
        (Rejected TransactionNotStartedError, d)
      else
        (case async (query dbConnection ''COMMIT'' None answer d) of
           (Resolved rows, d1) \<Rightarrow> (Resolved (), set_active dbConnection False d1)
         | (Rejected e, d1) \<Rightarrow> (Rejected e, d1)
         | (Thrown e, d1) \<Rightarrow> (Rejected e, d1)))"

definition rollbackTransaction ::
  "ref \<Rightarrow> (client_err + jsval) \<Rightarrow> PostgresDriver \<Rightarrow> unit outcome \<times> PostgresDriver"
where
  "rollbackTransaction dbConnection answer d =
     (if \<not> isTransactionActive (heap d dbConnection) then
        (Rejected TransactionNotStartedError, d)
      else
        (case async (query dbConnection ''ROLLBACK'' None answer d) of
           (Resolved rows, d1) \<Rightarrow> (Resolved (), set_active dbConnection False d1)
         | (Rejected e, d1) \<Rightarrow> (Rejected e, d1)
         | (Thrown e, d1) \<Rightarrow> (Rejected e, d1)))"

section \<open>JavaScript built-ins used by the driver\<close>

text \<open>
  What the host defines and the model does not compute: the rendering of a \<^verbatim>\<open>Date\<close> as
  a string, the formatting and parsing of the \<^verbatim>\<open>moment\<close> library
  (\<^verbatim>\<open>moment(v).format(f)\<close> and \<^verbatim>\<open>moment(v, f).toDate()\<close>), \<^verbatim>\<open>JSON\<close>, and numbers
  beyond \<open>2^53\<close>: how such a number is printed (the shortest digits that identify the
  double, in exponent notation from \<open>10^21\<close>) and what \<^verbatim>\<open>parseInt\<close> makes of a text
  whose integer exceeds \<open>2^53\<close> (the nearest double, an infinity, or for long decimal
  texts an approximation left to the implementation). They are parameters of the
  functions that call them.
\<close>

record host =
  date_toString :: "int \<Rightarrow> string"
  moment_format :: "jsval \<Rightarrow> string \<Rightarrow> string"
  moment_toDate :: "jsval \<Rightarrow> string \<Rightarrow> jsval"
  JSON_stringify :: "jsval \<Rightarrow> jsval"
  JSON_parse :: "jsval \<Rightarrow> error + jsval"
  number_toString :: "int \<Rightarrow> string"
  parseInt_beyond :: "string \<Rightarrow> jsval"

text \<open>
  The decimal notation of an integer, as JavaScript prints a number \<open>n\<close> with
  \<open>\<bar>n\<bar> \<le> 2^53\<close> (every integer of that range is a double of its own) and the length
  of an array.
\<close>

definition digit_char :: "nat \<Rightarrow> char" where
  "digit_char n = char_of (48 + n)"

function decimal_of_nat :: "nat \<Rightarrow> string" where
  "decimal_of_nat n =
     (if n < 10 then [digit_char n] else decimal_of_nat (n div 10) @ [digit_char (n mod 10)])"
  by pat_completeness auto
termination
  by (relation "measure (\<lambda>n. n)") auto

declare decimal_of_nat.simps [simp del]

definition decimal_of_int :: "int \<Rightarrow> string" where
  "decimal_of_int i =
     (if i < 0 then CHR ''-'' # decimal_of_nat (nat (- i)) else decimal_of_nat (nat i))"

text \<open>\<^verbatim>\<open>Array.prototype.join\<close> on an array of strings.\<close>

fun join :: "string \<Rightarrow> string list \<Rightarrow> string" where
  "join sep [] = []"
| "join sep [x] = x"
| "join sep (x # y # ys) = x @ sep @ join sep (y # ys)"

text \<open>\<^verbatim>\<open>String.prototype.split\<close> with a separator of one character.\<close>

fun js_split :: "char \<Rightarrow> string \<Rightarrow> string list" where
  "js_split sep [] = [[]]"
| "js_split sep (c # cs) =
     (if c = sep then [] # js_split sep cs
      else (case js_split sep cs of w # ws \<Rightarrow> (c # w) # ws | [] \<Rightarrow> [[c]]))"

text \<open>
  \<^verbatim>\<open>String(v)\<close>, which is also how a template literal renders \<^verbatim>\<open>${v}\<close>. An array joins
  its elements with a comma, \<^verbatim>\<open>null\<close> and \<^verbatim>\<open>undefined\<close> elements giving an empty string.
\<close>

fun js_String :: "host \<Rightarrow> jsval \<Rightarrow> string" where
  "js_String h Undefined = ''undefined''"
| "js_String h Null = ''null''"
| "js_String h (Bool b) = (if b then ''true'' else ''false'')"
| "js_String h (Num n) =
     (if \<bar>n\<bar> \<le> 9007199254740992 then decimal_of_int n else number_toString h n)"
| "js_String h NaN = ''NaN''"
| "js_String h Infinity = ''Infinity''"
| "js_String h NegInfinity = ''-Infinity''"
| "js_String h (Str s) = s"
| "js_String h (Arr xs) =
     join '','' (map (\<lambda>x. if x = Undefined \<or> x = Null then [] else js_String h x) xs)"
| "js_String h (Obj ps) = ''[object Object]''"
| "js_String h (DateV t) = date_toString h t"

text \<open>The truth value of a value in a condition.\<close>

fun truthy :: "jsval \<Rightarrow> bool" where
  "truthy Undefined = False"
| "truthy Null = False"
| "truthy (Bool b) = b"
| "truthy (Num n) = (n \<noteq> 0)"
| "truthy NaN = False"
| "truthy Infinity = True"
| "truthy NegInfinity = True"
| "truthy (Str s) = (s \<noteq> [])"
| "truthy (Arr xs) = True"
| "truthy (Obj ps) = True"
| "truthy (DateV t) = True"

text \<open>
  \<^verbatim>\<open>v[name]\<close> for a name that no prototype defines: the own property of an object, and
  \<^verbatim>\<open>undefined\<close> when there is none. \<^verbatim>\<open>v[0]\<close>: the first element of an array, the first
  character of a string. (On \<^verbatim>\<open>null\<close> and \<^verbatim>\<open>undefined\<close> the source reads a property
  only behind a truthiness test.)
\<close>

fun get_prop :: "jsval \<Rightarrow> string \<Rightarrow> jsval" where
  "get_prop (Obj ps) name = (case map_of ps name of Some v \<Rightarrow> v | None \<Rightarrow> Undefined)"
| "get_prop v name = Undefined"









text \<open>
  The arithmetic of doubles on integers: a sum is the exact sum rounded to the nearest
  double, to the one with the even significand when two are equally near. A double has
  53 significant bits, so an integer below \<open>2^53\<close> in absolute value is a double, and a
  larger one is rounded to a multiple of the power of two that its 53 leading bits
  leave over.
\<close>

fun bit_length :: "nat \<Rightarrow> nat" where
  "bit_length n = (if n = 0 then 0 else Suc (bit_length (n div 2)))"

declare bit_length.simps [simp del]

definition round_double :: "int \<Rightarrow> int" where
  "round_double x =
     (let a = nat \<bar>x\<bar>
      in if a < 9007199254740992 then x
         else
           (let e = bit_length a - 53;
                q = a div 2 ^ e;
                r = a mod 2 ^ e;
                q' = (if 2 ^ e < 2 * r \<or> (2 * r = 2 ^ e \<and> odd q) then q + 1 else q)
            in sgn x * int (q' * 2 ^ e)))"

text \<open>
  \<^verbatim>\<open>n + 1\<close> for a number \<open>n\<close>, as \<^verbatim>\<open>parseInt\<close> returns one. (A double plus one
  stays below the largest double's successor, so the sum of a \<open>Num\<close> is a \<open>Num\<close>.)
\<close>

fun plus_one :: "jsval \<Rightarrow> jsval" where
  "plus_one (Num n) = Num (round_double (n + 1))"
| "plus_one Infinity = Infinity"
| "plus_one NegInfinity = NegInfinity"
| "plus_one v = NaN"

section \<open>Identifier escaping and statement builders\<close>

definition escapeColumnName :: "string \<Rightarrow> string" where
  "escapeColumnName columnName = ''\"'' @ columnName @ ''\"''"

definition escapeAliasName :: "string \<Rightarrow> string" where
  "escapeAliasName aliasName = ''\"'' @ aliasName @ ''\"''"

definition escapeTableName :: "string \<Rightarrow> string" where
  "escapeTableName tableName = ''\"'' @ tableName @ ''\"''"

text \<open>\<^verbatim>\<open>Object.keys(o)\<close> and \<^verbatim>\<open>Object.keys(o).map(key => o[key])\<close>.\<close>

definition keys :: "ObjectLiteral \<Rightarrow> string list" where
  "keys obj = map fst obj"

definition values_of :: "ObjectLiteral \<Rightarrow> jsval list" where
  "values_of obj = map (\<lambda>key. get_prop (Obj obj) key) (keys obj)"

definition parametrize :: "ObjectLiteral \<Rightarrow> nat \<Rightarrow> string list" where
  "parametrize objectLiteral startIndex =
     map (\<lambda>(index, key). escapeColumnName key @ ''=$'' @ decimal_of_nat (startIndex + index + 1))
         (enumerate 0 (keys objectLiteral))"

text \<open>The statement and the parameters that \<^verbatim>\<open>update\<close> hands to \<^verbatim>\<open>query\<close>.\<close>

definition update_statement ::
  "string \<Rightarrow> ObjectLiteral \<Rightarrow> ObjectLiteral \<Rightarrow> string \<times> jsval list"
where
  "update_statement tableName valuesMap conditions =
     (let updateValues = join '', '' (parametrize valuesMap 0);
          conditionString = join '' AND '' (parametrize conditions (length (keys valuesMap)));
          sql = ''UPDATE '' @ escapeTableName tableName @ '' SET '' @ updateValues @ '' ''
                  @ (if conditionString \<noteq> [] then '' WHERE '' @ conditionString else []);
          updateParams = values_of valuesMap;
          conditionParams = values_of conditions
      in (sql, updateParams @ conditionParams))"

definition update ::
  "ref \<Rightarrow> string \<Rightarrow> ObjectLiteral \<Rightarrow> ObjectLiteral \<Rightarrow> (client_err + jsval) \<Rightarrow> PostgresDriver
     \<Rightarrow> unit outcome \<times> PostgresDriver"
where
  "update dbConnection tableName valuesMap conditions answer d =
     (if databaseConnection d = None \<and> pool d = None then
        (Rejected ConnectionIsNotSetError, d)
      else
        (case update_statement tableName valuesMap conditions of
           (sql, allParameters) \<Rightarrow>
             (case async (query dbConnection sql (Some allParameters) answer d) of
                (Resolved rows, d1) \<Rightarrow> (Resolved (), d1)
              | (Rejected e, d1) \<Rightarrow> (Rejected e, d1)
              | (Thrown e, d1) \<Rightarrow> (Rejected e, d1))))"





section \<open>Type marshalling\<close>

datatype ColumnTypes = BOOLEAN | DATE | TIME | DATETIME | JSON | SIMPLE_ARRAY | OTHER string

text \<open>
  Calling \<^verbatim>\<open>map\<close> on a value that is not an array, or \<^verbatim>\<open>split\<close> on one that is not a
  string, throws a TypeError; \<^verbatim>\<open>JSON.parse\<close> may throw.
\<close>

definition preparePersistentValue :: "host \<Rightarrow> jsval \<Rightarrow> ColumnTypes \<Rightarrow> error + jsval" where
  "preparePersistentValue h v column_type =
     (case column_type of
        BOOLEAN \<Rightarrow> Inr (if v = Bool True then Num 1 else Num 0)
      | DATE \<Rightarrow> Inr (Str (moment_format h v ''YYYY-MM-DD''))
      | TIME \<Rightarrow> Inr (Str (moment_format h v ''HH:mm:ss''))
      | DATETIME \<Rightarrow> Inr (Str (moment_format h v ''YYYY-MM-DD HH:mm:ss''))
      | JSON \<Rightarrow> Inr (JSON_stringify h v)
      | SIMPLE_ARRAY \<Rightarrow>
          (case v of
             Arr xs \<Rightarrow> Inr (Str (join '','' (map (js_String h) xs)))
           | _ \<Rightarrow> Inl TypeError)
      | OTHER t \<Rightarrow> Inr v)"

definition is_Date :: "jsval \<Rightarrow> bool" where
  "is_Date v = (case v of DateV t \<Rightarrow> True | _ \<Rightarrow> False)"

definition prepareHydratedValue :: "host \<Rightarrow> jsval \<Rightarrow> ColumnTypes \<Rightarrow> error + jsval" where
  "prepareHydratedValue h v column_type =
     (case column_type of
        BOOLEAN \<Rightarrow> Inr (Bool (truthy v))
      | DATE \<Rightarrow> Inr (if is_Date v then v else moment_toDate h v ''YYYY-MM-DD'')
      | TIME \<Rightarrow> Inr (moment_toDate h v ''HH:mm:ss'')
      | DATETIME \<Rightarrow> Inr (if is_Date v then v else moment_toDate h v ''YYYY-MM-DD HH:mm:ss'')
      | JSON \<Rightarrow> JSON_parse h v
      | SIMPLE_ARRAY \<Rightarrow>
          (case v of
             Str s \<Rightarrow> Inr (Arr (map Str (js_split CHR '','' s)))
           | _ \<Rightarrow> Inl TypeError)
      | OTHER t \<Rightarrow> Inr v)"

text \<open>Persisting a value and hydrating what was stored.\<close>

definition roundtrip :: "host \<Rightarrow> jsval \<Rightarrow> ColumnTypes \<Rightarrow> error + jsval" where
  "roundtrip h v column_type =
     (case preparePersistentValue h v column_type of
        Inl e \<Rightarrow> Inl e
      | Inr stored \<Rightarrow> prepareHydratedValue h stored column_type)"

section \<open>Parameter rewriting\<close>

text \<open>
  \<^verbatim>\<open>escapeQueryWithParameters\<close> builds the regular expression
  \<^verbatim>\<open>(:k1\b)|(:k2\b)|...\<close> from the keys and replaces every match, from left to right.
  The model reads each key as literal text, which is what the regular expression does
  for a key without a character that is special in a regular expression.

  A word character is one of \<^verbatim>\<open>[A-Za-z0-9_]\<close>. \<^verbatim>\<open>\b\<close> holds between two characters
  of which exactly one is a word character; the end of the text counts as a character
  that is not.
\<close>

definition is_word_char :: "char \<Rightarrow> bool" where
  "is_word_char c =
     (let n = of_char c :: nat
      in (48 \<le> n \<and> n \<le> 57) \<or> (65 \<le> n \<and> n \<le> 90) \<or> (97 \<le> n \<and> n \<le> 122) \<or> n = 95)"

definition regex_special :: "char \<Rightarrow> bool" where
  "regex_special c = (c = CHR 0x5C \<or> c \<in> set ''^$.|?*+()[]{}'')"

definition plain_keys :: "ObjectLiteral \<Rightarrow> bool" where
  "plain_keys parameters = list_all (\<lambda>k. \<not> list_ex regex_special k) (keys parameters)"

definition word_boundary :: "char \<Rightarrow> string \<Rightarrow> bool" where
  "word_boundary prev rest =
     (is_word_char prev \<noteq> (case rest of [] \<Rightarrow> False | c # _ \<Rightarrow> is_word_char c))"

text \<open>One alternative \<^verbatim>\<open>(:parameter\b)\<close> tried at the start of \<open>s\<close>.\<close>

definition match_alt :: "string \<Rightarrow> string \<Rightarrow> bool" where
  "match_alt parameter s =
     (let token = CHR '':'' # parameter
      in take (length token) s = token
         \<and> word_boundary (last token) (drop (length token) s))"

text \<open>The alternatives are tried in the order of the keys; the first that matches wins.\<close>

definition match_here :: "ObjectLiteral \<Rightarrow> string \<Rightarrow> string option" where
  "match_here parameters s = find (\<lambda>parameter. match_alt parameter s) (keys parameters)"

text \<open>
  The function given to \<^verbatim>\<open>replace\<close>. It pushes onto \<^verbatim>\<open>builtParameters\<close>, so the model
  takes the list and returns it with the replacement text. \<open>push_all\<close> is the
  \<^verbatim>\<open>value.map\<close> of the array case.
\<close>

fun push_all :: "jsval list \<Rightarrow> jsval list \<Rightarrow> string list \<times> jsval list" where
  "push_all builtParameters [] = ([], builtParameters)"
| "push_all builtParameters (v # vs) =
     (let built = builtParameters @ [v];
          (texts, built') = push_all built vs
      in ((''$'' @ decimal_of_nat (length built)) # texts, built'))"

definition replacer :: "ObjectLiteral \<Rightarrow> jsval list \<Rightarrow> string \<Rightarrow> string \<times> jsval list" where
  "replacer parameters builtParameters key =
     (case get_prop (Obj parameters) (drop 1 key) of
        Arr vs \<Rightarrow>
          (let (texts, built) = push_all builtParameters vs in (join '', '' texts, built))
      | v \<Rightarrow>
          (let built = builtParameters @ [v]
           in (''$'' @ decimal_of_nat (length built), built)))"

text \<open>\<^verbatim>\<open>sql.replace(new RegExp(keys, "g"), ...)\<close>: the scan of the text.\<close>

function replace_all :: "ObjectLiteral \<Rightarrow> jsval list \<Rightarrow> string \<Rightarrow> string \<times> jsval list" where
  "replace_all parameters builtParameters [] = ([], builtParameters)"
| "replace_all parameters builtParameters (c # cs) =
     (case match_here parameters (c # cs) of
        Some parameter \<Rightarrow>
          (let (text, built) = replacer parameters builtParameters (CHR '':'' # parameter);
               (out, built') = replace_all parameters built (drop (length parameter) cs)
           in (text @ out, built'))
      | None \<Rightarrow>
          (let (out, built) = replace_all parameters builtParameters cs
           in (c # out, built)))"
  by pat_completeness auto
termination
  by (relation "measure (\<lambda>(parameters, builtParameters, s). length s)") auto

definition escapeQueryWithParameters ::
  "string \<Rightarrow> ObjectLiteral option \<Rightarrow> string \<times> jsval list"
where
  "escapeQueryWithParameters sql parameters =
     (case parameters of
        None \<Rightarrow> (sql, [])
      | Some ps \<Rightarrow> (if length (keys ps) = 0 then (sql, []) else replace_all ps [] sql))"

section \<open>Driver states used as examples\<close>


definition pooled_driver :: PostgresDriver where
  "pooled_driver = snd (connect None 0 None initial_driver)"

definition single_driver :: PostgresDriver where
  "single_driver = snd (connect (Some False) 7 None initial_driver)"

definition retrieved_driver :: PostgresDriver where
  "retrieved_driver = snd (retrieveDatabaseConnection (Inr (10, 1)) pooled_driver)"

definition begun_driver :: PostgresDriver where
  "begun_driver = snd (beginTransaction 0 (Inr (Arr [])) retrieved_driver)"

definition committed_driver :: PostgresDriver where
  "committed_driver = snd (commitTransaction 0 (Inr (Arr [])) begun_driver)"

definition two_retrieved_driver :: PostgresDriver where
  "two_retrieved_driver = snd (retrieveDatabaseConnection (Inr (11, 2)) retrieved_driver)"

definition released_driver :: PostgresDriver where
  "released_driver = snd (releaseDatabaseConnection 0 two_retrieved_driver)"

definition released_twice_driver :: PostgresDriver where
  "released_twice_driver = snd (releaseDatabaseConnection 0 released_driver)"

definition reused_driver :: PostgresDriver where
  "reused_driver = snd (retrieveDatabaseConnection (Inr (10, 3)) released_driver)"

section \<open>Reachable driver states\<close>

text \<open>The states a driver can be in: the one after construction, and any state that a
  method of the connection manager, the query executor or the transaction coordinator
  leaves behind, whatever its arguments and whatever the collaborators answer.\<close>

inductive reachable :: "PostgresDriver \<Rightarrow> bool" where
  reach_initial: "reachable initial_driver"
| reach_connect: "reachable d \<Longrightarrow> reachable (snd (connect usePool client err d))"
| reach_disconnect: "reachable d \<Longrightarrow> reachable (snd (disconnect handler_call d))"
| reach_retrieve: "reachable d \<Longrightarrow> reachable (snd (retrieveDatabaseConnection pool_answer d))"
| reach_release: "reachable d \<Longrightarrow> reachable (snd (releaseDatabaseConnection c d))"
| reach_query: "reachable d \<Longrightarrow> reachable (snd (query c sql parameters answer d))"
| reach_begin: "reachable d \<Longrightarrow> reachable (snd (beginTransaction c answer d))"
| reach_commit: "reachable d \<Longrightarrow> reachable (snd (commitTransaction c answer d))"
| reach_rollback: "reachable d \<Longrightarrow> reachable (snd (rollbackTransaction c answer d))"

text \<open>The tracked records are distinct objects, all of them allocated.\<close>

definition tracked_ok :: "PostgresDriver \<Rightarrow> bool" where
  "tracked_ok d =
     (distinct (databaseConnectionPool d) \<and> list_all (\<lambda>r. r < next_ref d) (databaseConnectionPool d))"

section \<open>Basic facts about the operations\<close>

lemma heap_emit [simp]: "heap (emit es d) = heap d"
  by (simp add: emit_def)

lemma query_Inl:
  "query c sql ps (Inl e) d =
     (if databaseConnection d = None \<and> pool d = None then (Thrown ConnectionIsNotSetError, d)
      else (Rejected (ClientError e),
            emit [LogQuery sql, ClientQuery (connection (heap d c)) sql ps,
                  LogFailedQuery sql, LogQueryError e] d))"
  by (simp add: query_def emit_def Let_def)

lemma query_Inr:
  "query c sql ps (Inr rows) d =
     (if databaseConnection d = None \<and> pool d = None then (Thrown ConnectionIsNotSetError, d)
      else (Resolved rows,
            emit [LogQuery sql, ClientQuery (connection (heap d c)) sql ps] d))"
  by (simp add: query_def emit_def Let_def)

lemma pooled_driver_simps:
  "pool pooled_driver = Some PgPool" "databaseConnection pooled_driver = None"
  "heap pooled_driver = (\<lambda>_. new_connection 0 0)" "databaseConnectionPool pooled_driver = []"
  "next_ref pooled_driver = 0" "effects pooled_driver = []"
  by (simp_all add: pooled_driver_def connect_def initial_driver_def)

lemma retrieved_driver_simps:
  "pool retrieved_driver = Some PgPool" "databaseConnection retrieved_driver = None"
  "databaseConnectionPool retrieved_driver = [0]"
  "heap retrieved_driver 0 = \<lparr>conn_id = 0, connection = 10, isTransactionActive = False, releaseCallback = Some 1\<rparr>"
  "next_ref retrieved_driver = 1" "effects retrieved_driver = []"
  by (simp_all add: retrieved_driver_def retrieveDatabaseConnection_def pooled_driver_simps new_connection_def)

lemma retrieve_pooled:
  "retrieveDatabaseConnection (Inr (10, 1)) pooled_driver = (Resolved 0, retrieved_driver)"
  by (simp add: retrieved_driver_def retrieveDatabaseConnection_def pooled_driver_simps)

lemma begin_retrieved:
  "beginTransaction 0 (Inr (Arr [])) retrieved_driver = (Resolved (), begun_driver)"
  by (simp add: begun_driver_def beginTransaction_def query_Inr retrieved_driver_simps)

lemma begun_driver_simps:
  "pool begun_driver = Some PgPool" "isTransactionActive (heap begun_driver 0)"
  by (simp_all add: begun_driver_def beginTransaction_def query_Inr retrieved_driver_simps set_active_def emit_def)

lemma commit_begun:
  "commitTransaction 0 (Inr (Arr [])) begun_driver = (Resolved (), committed_driver)"
  by (simp add: committed_driver_def commitTransaction_def query_Inr begun_driver_simps)

section \<open>Transactions\<close>

lemma begin_flag_changed:
  assumes "isTransactionActive (heap (snd (beginTransaction c answer d)) c') \<noteq> isTransactionActive (heap d c')"
  shows "(\<exists>rows. answer = Inr rows) \<and> fst (beginTransaction c answer d) = Resolved ()"
  using assms by (cases answer) (auto simp: beginTransaction_def query_Inl query_Inr set_active_def split: if_splits)

lemma commit_flag_changed:
  assumes "isTransactionActive (heap (snd (commitTransaction c answer d)) c') \<noteq> isTransactionActive (heap d c')"
  shows "(\<exists>rows. answer = Inr rows) \<and> fst (commitTransaction c answer d) = Resolved ()"
  using assms by (cases answer) (auto simp: commitTransaction_def query_Inl query_Inr set_active_def split: if_splits)

lemma rollback_flag_changed:
  assumes "isTransactionActive (heap (snd (rollbackTransaction c answer d)) c') \<noteq> isTransactionActive (heap d c')"
  shows "(\<exists>rows. answer = Inr rows) \<and> fst (rollbackTransaction c answer d) = Resolved ()"
  using assms by (cases answer) (auto simp: rollbackTransaction_def query_Inl query_Inr set_active_def split: if_splits)

lemma begin_Inl:
  "(\<exists>e'. fst (beginTransaction c (Inl e) d) = Rejected e') \<and> heap (snd (beginTransaction c (Inl e) d)) = heap d"
  by (simp add: beginTransaction_def query_Inl)

lemma commit_Inl:
  "(\<exists>e'. fst (commitTransaction c (Inl e) d) = Rejected e') \<and> heap (snd (commitTransaction c (Inl e) d)) = heap d"
  by (simp add: commitTransaction_def query_Inl)

lemma rollback_Inl:
  "(\<exists>e'. fst (rollbackTransaction c (Inl e) d) = Rejected e') \<and> heap (snd (rollbackTransaction c (Inl e) d)) = heap d"
  by (simp add: rollbackTransaction_def query_Inl)

text \<open>
  Claim C3. When the statement issued by \<^verbatim>\<open>beginTransaction\<close>, \<^verbatim>\<open>commitTransaction\<close> or
  \<^verbatim>\<open>rollbackTransaction\<close> fails (the client answers with an error), the method's promise
  is rejected and the store is the one before the call, so the \<^verbatim>\<open>isTransactionActive\<close>
  flag of every connection is unchanged. Conversely, a call that changes a flag had a
  successful statement and resolved: the flag is flipped only after the statement
  succeeded.
\<close>

theorem failed_statement_keeps_flag:
  "((\<exists>e'. fst (beginTransaction c (Inl e) d) = Rejected e') \<and>
      heap (snd (beginTransaction c (Inl e) d)) = heap d) \<and>
   ((\<exists>e'. fst (commitTransaction c (Inl e) d) = Rejected e') \<and>
      heap (snd (commitTransaction c (Inl e) d)) = heap d) \<and>
   ((\<exists>e'. fst (rollbackTransaction c (Inl e) d) = Rejected e') \<and>
      heap (snd (rollbackTransaction c (Inl e) d)) = heap d) \<and>
   (isTransactionActive (heap (snd (beginTransaction c answer d)) c') \<noteq> isTransactionActive (heap d c')
      \<longrightarrow> (\<exists>rows. answer = Inr rows) \<and> fst (beginTransaction c answer d) = Resolved ()) \<and>
   (isTransactionActive (heap (snd (commitTransaction c answer d)) c') \<noteq> isTransactionActive (heap d c')
      \<longrightarrow> (\<exists>rows. answer = Inr rows) \<and> fst (commitTransaction c answer d) = Resolved ()) \<and>
   (isTransactionActive (heap (snd (rollbackTransaction c answer d)) c') \<noteq> isTransactionActive (heap d c')
      \<longrightarrow> (\<exists>rows. answer = Inr rows) \<and> fst (rollbackTransaction c answer d) = Resolved ())"
  by (intro conjI impI begin_Inl [THEN conjunct1] begin_Inl [THEN conjunct2]
        commit_Inl [THEN conjunct1] commit_Inl [THEN conjunct2]
        rollback_Inl [THEN conjunct1] rollback_Inl [THEN conjunct2])
     (erule begin_flag_changed [THEN conjunct1] begin_flag_changed [THEN conjunct2]
        commit_flag_changed [THEN conjunct1] commit_flag_changed [THEN conjunct2]
        rollback_flag_changed [THEN conjunct1] rollback_flag_changed [THEN conjunct2])+

theorem failed_statement_keeps_flag_witness:
  "isTransactionActive (heap (snd (beginTransaction 0 (Inr (Arr [])) pooled_driver)) 0)
     \<noteq> isTransactionActive (heap pooled_driver 0) \<and>
   fst (beginTransaction 0 (Inr (Arr [])) pooled_driver) = Resolved () \<and>
   heap (snd (beginTransaction 0 (Inl ''deadlock'') pooled_driver)) = heap pooled_driver"
  using failed_statement_keeps_flag [of 0 "''deadlock''" pooled_driver "Inr (Arr [])" 0]
  by (simp add: beginTransaction_def query_Inr set_active_def pooled_driver_simps new_connection_def)

lemma begin_iff:
  "(fst (beginTransaction c answer d) = Rejected TransactionAlreadyStartedError) = isTransactionActive (heap d c)"
  by (cases answer) (auto simp: beginTransaction_def query_Inl query_Inr)

lemma commit_iff:
  "(fst (commitTransaction c answer d) = Rejected TransactionNotStartedError) = (\<not> isTransactionActive (heap d c))"
  by (cases answer) (auto simp: commitTransaction_def query_Inl query_Inr)

lemma rollback_iff:
  "(fst (rollbackTransaction c answer d) = Rejected TransactionNotStartedError) = (\<not> isTransactionActive (heap d c))"
  by (cases answer) (auto simp: rollbackTransaction_def query_Inl query_Inr)

lemma begin_resolved:
  "fst (beginTransaction c answer d) = Resolved () \<Longrightarrow> isTransactionActive (heap (snd (beginTransaction c answer d)) c)"
  by (cases answer) (auto simp: beginTransaction_def query_Inl query_Inr set_active_def split: if_splits)

lemma commit_resolved:
  "fst (commitTransaction c answer d) = Resolved () \<Longrightarrow> \<not> isTransactionActive (heap (snd (commitTransaction c answer d)) c)"
  by (cases answer) (auto simp: commitTransaction_def query_Inl query_Inr set_active_def split: if_splits)

lemma rollback_resolved:
  "fst (rollbackTransaction c answer d) = Resolved () \<Longrightarrow> \<not> isTransactionActive (heap (snd (rollbackTransaction c answer d)) c)"
  by (cases answer) (auto simp: rollbackTransaction_def query_Inl query_Inr set_active_def split: if_splits)

lemma retrieved_idle:
  assumes "pool d = Some p"
    and "find (\<lambda>r. connection (heap d r) = h) (databaseConnectionPool d) = None"
    and "retrieveDatabaseConnection (Inr (h, f)) d = (Resolved c, d')"
  shows "\<not> isTransactionActive (heap d' c)"
  using assms by (auto simp: retrieveDatabaseConnection_def new_connection_def Let_def split: option.splits)

lemma connected_idle:
  assumes "connect (Some False) h err d = (r, d')"
  shows "\<exists>c. databaseConnection d' = Some c \<and> \<not> isTransactionActive (heap d' c)"
  using assms by (auto simp: connect_def new_connection_def Let_def emit_def split: option.splits)

text \<open>
  Claim C4. \<^verbatim>\<open>beginTransaction\<close> is rejected with \<^verbatim>\<open>TransactionAlreadyStartedError\<close> exactly
  when the connection's flag is set (state Active); \<^verbatim>\<open>commitTransaction\<close> and
  \<^verbatim>\<open>rollbackTransaction\<close> are rejected with \<^verbatim>\<open>TransactionNotStartedError\<close> exactly when
  it is not set (state Idle). In particular a begin after a successful begin fails, a
  commit on a connection just created by a retrieval from the pool fails, and a rollback
  after a successful begin and a successful commit fails.
\<close>

theorem transaction_state_machine:
  "(fst (beginTransaction c answer d) = Rejected TransactionAlreadyStartedError)
     = isTransactionActive (heap d c) \<and>
   (fst (commitTransaction c answer d) = Rejected TransactionNotStartedError)
     = (\<not> isTransactionActive (heap d c)) \<and>
   (fst (rollbackTransaction c answer d) = Rejected TransactionNotStartedError)
     = (\<not> isTransactionActive (heap d c)) \<and>
   (beginTransaction c ansA d = (Resolved (), dA) \<longrightarrow>
      fst (beginTransaction c ansB dA) = Rejected TransactionAlreadyStartedError) \<and>
   (pool d = Some p \<and>
    find (\<lambda>r. connection (heap d r) = h) (databaseConnectionPool d) = None \<and>
    retrieveDatabaseConnection (Inr (h, f)) d = (Resolved c, dA) \<longrightarrow>
      fst (commitTransaction c ansA dA) = Rejected TransactionNotStartedError) \<and>
   (beginTransaction c ansA d = (Resolved (), dA) \<and> commitTransaction c ansB dA = (Resolved (), dB) \<longrightarrow>
      fst (rollbackTransaction c ansC dB) = Rejected TransactionNotStartedError)"
  using begin_iff commit_iff rollback_iff begin_resolved [of c ansA d] commit_resolved [of c ansB dA]
    retrieved_idle [of d p h f c dA]
  by (metis fst_conv snd_conv)


theorem transaction_state_machine_witness:
  "beginTransaction 0 (Inr (Arr [])) retrieved_driver = (Resolved (), begun_driver) \<and>
   fst (beginTransaction 0 (Inr (Arr [])) begun_driver) = Rejected TransactionAlreadyStartedError \<and>
   pool pooled_driver = Some PgPool \<and>
   find (\<lambda>r. connection (heap pooled_driver r) = 10) (databaseConnectionPool pooled_driver) = None \<and>
   retrieveDatabaseConnection (Inr (10, 1)) pooled_driver = (Resolved 0, retrieved_driver) \<and>
   fst (commitTransaction 0 (Inr (Arr [])) retrieved_driver) = Rejected TransactionNotStartedError \<and>
   commitTransaction 0 (Inr (Arr [])) begun_driver = (Resolved (), committed_driver) \<and>
   fst (rollbackTransaction 0 (Inr (Arr [])) committed_driver) = Rejected TransactionNotStartedError"
proof -
  have r: "retrieveDatabaseConnection (Inr (10, 1)) pooled_driver = (Resolved 0, retrieved_driver)"
    by (rule retrieve_pooled)
  have p: "pool pooled_driver = Some PgPool"
    and f: "find (\<lambda>r. connection (heap pooled_driver r) = 10)
              (databaseConnectionPool pooled_driver) = None"
    by (simp_all add: pooled_driver_simps)
  have b: "beginTransaction 0 (Inr (Arr [])) retrieved_driver = (Resolved (), begun_driver)"
    by (rule begin_retrieved)
  have c: "commitTransaction 0 (Inr (Arr [])) begun_driver = (Resolved (), committed_driver)"
    by (rule commit_begun)
  note m = transaction_state_machine [where c = 0 and d = retrieved_driver
      and ansA = "Inr (Arr [])" and dA = begun_driver and ansB = "Inr (Arr [])"
      and dB = committed_driver and ansC = "Inr (Arr [])"]
  note n = transaction_state_machine [where c = 0 and d = pooled_driver and p = PgPool
      and h = 10 and f = 1 and dA = retrieved_driver and ansA = "Inr (Arr [])"]
  from m b have "fst (beginTransaction 0 (Inr (Arr [])) begun_driver)
      = Rejected TransactionAlreadyStartedError"
    by blast
  moreover from n p f r have "fst (commitTransaction 0 (Inr (Arr [])) retrieved_driver)
      = Rejected TransactionNotStartedError"
    by blast
  moreover from m b c have "fst (rollbackTransaction 0 (Inr (Arr [])) committed_driver)
      = Rejected TransactionNotStartedError"
    by blast
  ultimately show ?thesis
    using r p f b c by blast
qed

section \<open>Arrays and the tracked collection\<close>

lemma indexOf_ge: "indexOf xs x \<ge> - 1"
  by (induction xs) (auto simp: Let_def)

lemma indexOf_notin: "x \<notin> set xs \<Longrightarrow> indexOf xs x = - 1"
  by (induction xs) (auto simp: Let_def)

lemma indexOf_in: "x \<in> set xs \<Longrightarrow> 0 \<le> indexOf xs x \<and> indexOf xs x < int (length xs)"
  by (induction xs) (auto simp: Let_def)

lemma splice_Cons_Suc:
  "0 \<le> i \<Longrightarrow> splice (y # ys) (i + 1) n = y # splice ys i n"
  by (auto simp: splice_def Let_def min_def nat_add_distrib)

lemma splice_indexOf: "x \<in> set xs \<Longrightarrow> splice xs (indexOf xs x) 1 = remove1 x xs"
proof (induction xs)
  case Nil
  then show ?case by simp
next
  case (Cons y ys)
  show ?case
  proof (cases "y = x")
    case True
    then show ?thesis by (simp add: splice_def)
  next
    case False
    with Cons.prems have x: "x \<in> set ys" by simp
    then have "0 \<le> indexOf ys x" by (simp add: indexOf_in)
    then show ?thesis
      using False x Cons.IH by (simp add: Let_def splice_Cons_Suc)
  qed
qed

lemma splice_minus_one: "splice xs (- 1) 1 = butlast xs"
  by (cases xs rule: rev_cases) (auto simp: splice_def Let_def max_def)

lemma set_splice: "set (splice xs i n) \<subseteq> set xs"
  by (auto simp: splice_def Let_def dest: in_set_takeD in_set_dropD)

lemma distinct_splice: "distinct xs \<Longrightarrow> distinct (splice xs i n)"
  using set_take_disj_set_drop_if_distinct [of xs]
  by (simp add: splice_def Let_def)


lemma tracked_ok_initial: "tracked_ok initial_driver"
  by (simp add: tracked_ok_def initial_driver_def)

lemma tracked_ok_connect: "tracked_ok d \<Longrightarrow> tracked_ok (snd (connect usePool client err d))"
  by (auto simp: tracked_ok_def connect_def Let_def emit_def list_all_iff split: option.split)

lemma tracked_ok_disconnect: "tracked_ok d \<Longrightarrow> tracked_ok (snd (disconnect handler_call d))"
  by (auto simp: tracked_ok_def disconnect_def Let_def emit_def split: option.split)

lemma tracked_ok_retrieve:
  "tracked_ok d \<Longrightarrow> tracked_ok (snd (retrieveDatabaseConnection pool_answer d))"
  by (auto simp: tracked_ok_def retrieveDatabaseConnection_def Let_def list_all_iff
      split: option.split sum.split)

lemma tracked_ok_release:
  "tracked_ok d \<Longrightarrow> tracked_ok (snd (releaseDatabaseConnection c d))"
  using set_splice [of "databaseConnectionPool d" "indexOf (databaseConnectionPool d) c" 1]
  by (auto simp: tracked_ok_def releaseDatabaseConnection_def emit_def list_all_iff distinct_splice
      split: option.split)

lemma tracked_ok_query: "tracked_ok d \<Longrightarrow> tracked_ok (snd (query c sql ps answer d))"
  by (auto simp: tracked_ok_def query_def Let_def emit_def split: sum.split)

lemma tracked_ok_begin: "tracked_ok d \<Longrightarrow> tracked_ok (snd (beginTransaction c answer d))"
  by (cases answer) (auto simp: tracked_ok_def beginTransaction_def query_Inl query_Inr set_active_def emit_def)

lemma tracked_ok_commit: "tracked_ok d \<Longrightarrow> tracked_ok (snd (commitTransaction c answer d))"
  by (cases answer) (auto simp: tracked_ok_def commitTransaction_def query_Inl query_Inr set_active_def emit_def)

lemma tracked_ok_rollback: "tracked_ok d \<Longrightarrow> tracked_ok (snd (rollbackTransaction c answer d))"
  by (cases answer) (auto simp: tracked_ok_def rollbackTransaction_def query_Inl query_Inr set_active_def emit_def)

lemma reachable_tracked_ok: "reachable d \<Longrightarrow> tracked_ok d"
  by (induction rule: reachable.induct)
     (simp_all add: tracked_ok_initial tracked_ok_connect tracked_ok_disconnect
        tracked_ok_retrieve tracked_ok_release tracked_ok_query tracked_ok_begin
        tracked_ok_commit tracked_ok_rollback)

section \<open>Releasing a pooled connection\<close>

lemma release_tracked:
  assumes "pool d = Some p" and "releaseCallback (heap d c) = Some f"
  shows "releaseDatabaseConnection c d =
           (Resolved (),
            (emit [ReleaseCallback f] d)
              \<lparr>databaseConnectionPool :=
                 splice (databaseConnectionPool d) (indexOf (databaseConnectionPool d) c) 1\<rparr>)"
  using assms by (simp add: releaseDatabaseConnection_def)

lemma release_unpooled:
  "releaseDatabaseConnection c (d\<lparr>pool := None\<rparr>) = (Resolved (), d\<lparr>pool := None\<rparr>)"
  by (simp add: releaseDatabaseConnection_def)

lemma two_retrieved_driver_simps:
  "pool two_retrieved_driver = Some PgPool" "databaseConnection two_retrieved_driver = None"
  "databaseConnectionPool two_retrieved_driver = [0, 1]"
  "heap two_retrieved_driver 0 = \<lparr>conn_id = 0, connection = 10, isTransactionActive = False, releaseCallback = Some 1\<rparr>"
  "heap two_retrieved_driver (Suc 0) = \<lparr>conn_id = Suc 0, connection = 11, isTransactionActive = False, releaseCallback = Some 2\<rparr>"
  "next_ref two_retrieved_driver = 2" "effects two_retrieved_driver = []"
  by (simp_all add: two_retrieved_driver_def retrieveDatabaseConnection_def retrieved_driver_simps
      new_connection_def)

lemma release_two_retrieved:
  "releaseDatabaseConnection 0 two_retrieved_driver = (Resolved (), released_driver)"
  by (simp add: released_driver_def releaseDatabaseConnection_def two_retrieved_driver_simps)

lemma released_driver_simps:
  "pool released_driver = Some PgPool" "databaseConnection released_driver = None"
  "databaseConnectionPool released_driver = [1]"
  "heap released_driver 0 = \<lparr>conn_id = 0, connection = 10, isTransactionActive = False, releaseCallback = Some 1\<rparr>"
  "heap released_driver (Suc 0) = \<lparr>conn_id = Suc 0, connection = 11, isTransactionActive = False, releaseCallback = Some 2\<rparr>"
  "next_ref released_driver = 2" "effects released_driver = [ReleaseCallback 1]"
  by (simp_all add: released_driver_def releaseDatabaseConnection_def two_retrieved_driver_simps
      emit_def splice_def)

lemma release_released:
  "releaseDatabaseConnection 0 released_driver = (Resolved (), released_twice_driver)"
  by (simp add: released_twice_driver_def releaseDatabaseConnection_def released_driver_simps)

lemma released_twice_driver_simps:
  "databaseConnectionPool released_twice_driver = []"
  "effects released_twice_driver = [ReleaseCallback 1, ReleaseCallback 1]"
  by (simp_all add: released_twice_driver_def releaseDatabaseConnection_def released_driver_simps
      emit_def splice_def)

lemma reused_driver_simps:
  "databaseConnectionPool reused_driver = [1, 2]"
  "heap reused_driver (Suc 0) = \<lparr>conn_id = Suc 0, connection = 11, isTransactionActive = False, releaseCallback = Some 2\<rparr>"
  "heap reused_driver 2 = \<lparr>conn_id = Suc 0, connection = 10, isTransactionActive = False, releaseCallback = Some 3\<rparr>"
  by (simp_all add: reused_driver_def retrieveDatabaseConnection_def released_driver_simps
      new_connection_def)

lemma reachable_pooled: "reachable pooled_driver"
  unfolding pooled_driver_def by (intro reach_connect reach_initial)

lemma reachable_retrieved: "reachable retrieved_driver"
  unfolding retrieved_driver_def by (intro reach_retrieve reachable_pooled)

lemma reachable_two_retrieved: "reachable two_retrieved_driver"
  unfolding two_retrieved_driver_def by (intro reach_retrieve reachable_retrieved)

lemma reachable_released: "reachable released_driver"
  unfolding released_driver_def by (intro reach_release reachable_two_retrieved)

lemma reachable_reused: "reachable reused_driver"
  unfolding reused_driver_def by (intro reach_retrieve reachable_released)

text \<open>
  Claim C1, as the code has it. In a reachable state with pooling active, \<^verbatim>\<open>release\<close> of a
  tracked connection that carries a release function resolves, calls that function
  exactly once and removes the record from the tracked collection, leaving the other
  records in their order. The record keeps its release function and \<^verbatim>\<open>release\<close> has no
  guard against repetition: a second \<^verbatim>\<open>release\<close> of the same record calls the function
  again. With pooling inactive, \<^verbatim>\<open>release\<close> resolves and changes nothing.
\<close>

theorem release_pooled_connection:
  assumes "reachable d" and "pool d = Some p" and "c \<in> set (databaseConnectionPool d)"
    and "releaseCallback (heap d c) = Some f"
    and "releaseDatabaseConnection c d = (r, dA)"
    and "releaseDatabaseConnection c dA = (r', dB)"
  shows "r = Resolved () \<and>
         effects dA = effects d @ [ReleaseCallback f] \<and>
         databaseConnectionPool dA = remove1 c (databaseConnectionPool d) \<and>
         c \<notin> set (databaseConnectionPool dA) \<and>
         r' = Resolved () \<and>
         effects dB = effects d @ [ReleaseCallback f, ReleaseCallback f] \<and>
         releaseDatabaseConnection c' (d'\<lparr>pool := None\<rparr>) = (Resolved (), d'\<lparr>pool := None\<rparr>)"
proof -
  have dist: "distinct (databaseConnectionPool d)"
    using reachable_tracked_ok [OF assms(1)] by (simp add: tracked_ok_def)
  have first: "r = Resolved ()"
    "dA = (emit [ReleaseCallback f] d)
            \<lparr>databaseConnectionPool := remove1 c (databaseConnectionPool d)\<rparr>"
    using assms(5) release_tracked [OF assms(2,4)] splice_indexOf [OF assms(3)] by simp_all
  have again: "pool dA = Some p" "releaseCallback (heap dA c) = Some f"
    using assms(2,4) by (simp_all add: first emit_def)
  have second: "r' = Resolved ()" "effects dB = effects dA @ [ReleaseCallback f]"
    using assms(6) release_tracked [OF again] by (auto simp: emit_def)
  show ?thesis
    using first second dist by (simp add: emit_def release_unpooled)
qed


theorem release_pooled_connection_witness:
  "reachable two_retrieved_driver \<and>
   pool two_retrieved_driver = Some PgPool \<and>
   0 \<in> set (databaseConnectionPool two_retrieved_driver) \<and>
   releaseCallback (heap two_retrieved_driver 0) = Some 1 \<and>
   releaseDatabaseConnection 0 two_retrieved_driver = (Resolved (), released_driver) \<and>
   releaseDatabaseConnection 0 released_driver = (Resolved (), released_twice_driver) \<and>
   effects released_driver = effects two_retrieved_driver @ [ReleaseCallback 1] \<and>
   0 \<notin> set (databaseConnectionPool released_driver) \<and>
   effects released_twice_driver = effects two_retrieved_driver @ [ReleaseCallback 1, ReleaseCallback 1]"
proof -
  have a: "reachable two_retrieved_driver" by (rule reachable_two_retrieved)
  have b: "pool two_retrieved_driver = Some PgPool"
    and c: "0 \<in> set (databaseConnectionPool two_retrieved_driver)"
    and d: "releaseCallback (heap two_retrieved_driver 0) = Some 1"
    by (simp_all add: two_retrieved_driver_simps)
  note e = release_two_retrieved
  note f = release_released
  from release_pooled_connection [OF a b c d e f] a b c d e f show ?thesis
    by blast
qed

text \<open>
  Claim C1 as stated fails. Two clients are retrieved from the pool and the first record
  is released twice: the second \<^verbatim>\<open>release\<close> calls the release function 1 a second time,
  and, as \<^verbatim>\<open>indexOf\<close> now answers \<open>-1\<close>, \<^verbatim>\<open>splice(-1, 1)\<close> removes the last tracked
  record, the one of the second client, which nobody released.
\<close>

theorem release_twice_counterexample:
  "pool released_driver = Some PgPool \<and>
   releaseDatabaseConnection 0 two_retrieved_driver = (Resolved (), released_driver) \<and>
   releaseDatabaseConnection 0 released_driver = (Resolved (), released_twice_driver) \<and>
   effects released_driver = [ReleaseCallback 1] \<and>
   effects released_twice_driver = [ReleaseCallback 1, ReleaseCallback 1] \<and>
   databaseConnectionPool released_driver = [1] \<and>
   databaseConnectionPool released_twice_driver = []"
  by (simp add: release_two_retrieved release_released released_driver_simps
      released_twice_driver_simps)

section \<open>Disconnecting\<close>

lemma single_driver_simps:
  "pool single_driver = None" "databaseConnection single_driver = Some 0"
  "databaseConnectionPool single_driver = []"
  "heap single_driver 0 = \<lparr>conn_id = 1, connection = 7, isTransactionActive = False, releaseCallback = None\<rparr>"
  "next_ref single_driver = 1" "effects single_driver = [ClientConnect 7]"
  by (simp_all add: single_driver_def connect_def initial_driver_def new_connection_def emit_def)

lemma disconnect_not_set:
  "databaseConnection d = None \<Longrightarrow> pool d = None \<Longrightarrow>
   disconnect handler_call d = (Thrown ConnectionIsNotSetError, d)"
  by (simp add: disconnect_def)

lemma disconnect_pooled:
  assumes "pool d = Some p"
  shows "fst (disconnect handler_call d) =
           (case handler_call of
              Some (Some err) \<Rightarrow> Rejected (ClientError err)
            | _ \<Rightarrow> Resolved ())"
    and "effects (snd (disconnect handler_call d)) =
           effects d @
           (case databaseConnection d of Some r \<Rightarrow> [ClientEnd (connection (heap d r))] | None \<Rightarrow> [])
           @ release_all d @ [PoolEnd]"
    and "databaseConnection (snd (disconnect handler_call d)) = None"
    and "pool (snd (disconnect handler_call d)) = None"
    and "databaseConnectionPool (snd (disconnect handler_call d)) = []"
    and "fst (disconnect handler_call' (snd (disconnect handler_call d))) =
           Thrown ConnectionIsNotSetError"
  using assms
  by (auto simp: disconnect_def Let_def emit_def release_all_def split: option.split)

text \<open>
  Claim C2 at a driver connected in single-connection mode (no pool, one open client):
  \<^verbatim>\<open>disconnect\<close> closes the client and clears the field, and then, the array of tracked
  connections being truthy, calls \<^verbatim>\<open>this.pool.end\<close> on the undefined pool: the promise is
  rejected with a TypeError instead of completing, whatever the pool would have done
  with the handler. (With a pool the method does what the claim says unless
  \<^verbatim>\<open>pool.end\<close> passes an error to the handler at once, see \<open>disconnect_pooled\<close>; with
  neither, see \<open>disconnect_not_set\<close>.)
\<close>

theorem disconnect_single_connection_rejected:
  "connect (Some False) 7 None initial_driver = (Resolved (), single_driver) \<and>
   databaseConnection single_driver = Some 0 \<and>
   pool single_driver = None \<and>
   fst (disconnect handler_call single_driver) = Rejected TypeError \<and>
   databaseConnection (snd (disconnect handler_call single_driver)) = None \<and>
   effects (snd (disconnect handler_call single_driver)) = [ClientConnect 7, ClientEnd 7]"
  by (simp add: single_driver_simps disconnect_def emit_def release_all_def)
     (simp add: single_driver_def connect_def Let_def)

section \<open>Connection ids\<close>

text \<open>
  Claim C9 at a reachable state. A new record takes the length of the tracked collection
  as its id. Two clients are retrieved (ids 0 and 1), the first is released, and the
  next retrieval creates a record whose id is the length 1: the tracked collection then
  holds two records with id 1.
\<close>

theorem reused_connection_duplicate_id:
  "reachable reused_driver \<and>
   databaseConnectionPool reused_driver = [1, 2] \<and>
   map (\<lambda>r. conn_id (heap reused_driver r)) (databaseConnectionPool reused_driver) = [1, 1] \<and>
   \<not> distinct (map (\<lambda>r. conn_id (heap reused_driver r)) (databaseConnectionPool reused_driver))"
  by (simp add: reachable_reused reused_driver_simps)

section \<open>The update statement\<close>

lemma join_nonempty: "xs \<noteq> [] \<Longrightarrow> hd xs \<noteq> [] \<Longrightarrow> join sep xs \<noteq> []"
  by (induction sep xs rule: join.induct) auto

lemma parametrize_nth:
  "parametrize obj start =
     map (\<lambda>i. ''\"'' @ fst (obj ! i) @ ''\"=$'' @ decimal_of_nat (start + i + 1)) [0..<length obj]"
  by (rule nth_equalityI)
     (simp_all add: parametrize_def keys_def escapeColumnName_def nth_enumerate_eq)

lemma parametrize_empty: "(parametrize obj start = []) = (obj = [])"
  by (simp add: parametrize_def keys_def enumerate_eq_zip)

lemma parametrize_hd: "obj \<noteq> [] \<Longrightarrow> hd (parametrize obj start) \<noteq> []"
  by (cases obj) (simp_all add: parametrize_def keys_def escapeColumnName_def)

lemma condition_string_empty:
  "(join sep (parametrize obj start) = []) = (obj = [])"
proof (cases "obj = []")
  case True
  then show ?thesis by (simp add: parametrize_def keys_def)
next
  case False
  then have "parametrize obj start \<noteq> []" by (simp add: parametrize_empty)
  with False show ?thesis
    using join_nonempty parametrize_hd by blast
qed

lemma values_of_distinct: "distinct (keys obj) \<Longrightarrow> values_of obj = map snd obj"
  by (auto simp: values_of_def keys_def split: option.split dest: map_of_SomeD eq_key_imp_eq_value
      simp: map_of_eq_None_iff image_iff)

lemma update_issues:
  assumes "databaseConnection d \<noteq> None \<or> pool d \<noteq> None"
  shows "take (length (effects d) + 2) (effects (snd (update c t vm cs answer d))) =
     effects d @ [LogQuery (fst (update_statement t vm cs)),
                  ClientQuery (connection (heap d c)) (fst (update_statement t vm cs))
                    (Some (snd (update_statement t vm cs)))]"
  using assms
  by (cases answer; cases "update_statement t vm cs")
     (auto simp: update_def query_Inl query_Inr emit_def)


text \<open>
  Claim C5, as the code has it. For objects with distinct keys, \<^verbatim>\<open>update\<close> hands to
  \<^verbatim>\<open>query\<close> the statement \<^verbatim>\<open>UPDATE "table" SET\<close> followed by the comma-joined
  assignments \<^verbatim>\<open>"key"=$i\<close>, the keys of \<^verbatim>\<open>valuesMap\<close> numbered from 1, then one space,
  then, only when \<^verbatim>\<open>conditions\<close> is not empty, \<^verbatim>\<open> WHERE \<close> and the conditions joined by
  \<^verbatim>\<open> AND \<close>, numbered from the number of update values plus one; the parameters are the
  update values followed by the condition values. For \<^verbatim>\<open>{name: "Bob"}\<close> and no condition
  the statement is \<^verbatim>\<open>UPDATE "users" SET "name"=$1\<close> followed by that one space, without a
  WHERE clause, with parameters \<^verbatim>\<open>["Bob"]\<close>.
\<close>

theorem update_statement_shape:
  assumes "distinct (keys valuesMap)" and "distinct (keys conditions)"
    and "databaseConnection d \<noteq> None \<or> pool d \<noteq> None"
  shows "fst (update_statement tableName valuesMap conditions) =
           ''UPDATE \"'' @ tableName @ ''\" SET '' @
           join '', '' (map (\<lambda>i. ''\"'' @ fst (valuesMap ! i) @ ''\"=$'' @ decimal_of_nat (i + 1))
                          [0..<length valuesMap]) @
           '' '' @
           (if conditions = [] then []
            else '' WHERE '' @
              join '' AND ''
                (map (\<lambda>j. ''\"'' @ fst (conditions ! j) @ ''\"=$'' @
                            decimal_of_nat (length valuesMap + j + 1))
                     [0..<length conditions])) \<and>
         snd (update_statement tableName valuesMap conditions) =
           map snd valuesMap @ map snd conditions \<and>
         take (length (effects d) + 2)
              (effects (snd (update c tableName valuesMap conditions answer d))) =
           effects d @
           [LogQuery (fst (update_statement tableName valuesMap conditions)),
            ClientQuery (connection (heap d c))
              (fst (update_statement tableName valuesMap conditions))
              (Some (snd (update_statement tableName valuesMap conditions)))] \<and>
         update_statement ''users'' [(''name'', Str ''Bob'')] [] =
           (''UPDATE \"users\" SET \"name\"=$1 '', [Str ''Bob''])"
proof -
  have sql: "fst (update_statement tableName valuesMap conditions) =
           ''UPDATE \"'' @ tableName @ ''\" SET '' @
           join '', '' (map (\<lambda>i. ''\"'' @ fst (valuesMap ! i) @ ''\"=$'' @ decimal_of_nat (i + 1))
                          [0..<length valuesMap]) @
           '' '' @
           (if conditions = [] then []
            else '' WHERE '' @
              join '' AND ''
                (map (\<lambda>j. ''\"'' @ fst (conditions ! j) @ ''\"=$'' @
                            decimal_of_nat (length valuesMap + j + 1))
                     [0..<length conditions]))"
    using condition_string_empty [of "'' AND ''" conditions "length valuesMap"]
    by (simp add: update_statement_def Let_def escapeTableName_def keys_def parametrize_nth)
  have params: "snd (update_statement tableName valuesMap conditions) =
           map snd valuesMap @ map snd conditions"
    using assms(1,2) by (simp add: update_statement_def Let_def values_of_distinct)
  have bob: "update_statement ''users'' [(''name'', Str ''Bob'')] [] =
           (''UPDATE \"users\" SET \"name\"=$1 '', [Str ''Bob''])"
    by code_simp
  show ?thesis
    using sql params bob update_issues [OF assms(3)] by blast
qed

theorem update_statement_shape_witness:
  "distinct (keys [(''name'', Str ''Bob''), (''age'', Num 3)]) \<and>
   distinct (keys [(''id'', Num 1), (''x'', Num 2)]) \<and>
   pool retrieved_driver = Some PgPool \<and>
   effects (snd (update 0 ''users'' [(''name'', Str ''Bob''), (''age'', Num 3)]
                   [(''id'', Num 1), (''x'', Num 2)] (Inr (Arr [])) retrieved_driver)) =
     [LogQuery ''UPDATE \"users\" SET \"name\"=$1, \"age\"=$2  WHERE \"id\"=$3 AND \"x\"=$4'',
      ClientQuery 10 ''UPDATE \"users\" SET \"name\"=$1, \"age\"=$2  WHERE \"id\"=$3 AND \"x\"=$4''
        (Some [Str ''Bob'', Num 3, Num 1, Num 2])]"
proof -
  have a: "distinct (keys [(''name'', Str ''Bob''), (''age'', Num 3)])"
    and b: "distinct (keys [(''id'', Num 1), (''x'', Num 2)])"
    by (simp_all add: keys_def)
  have c: "databaseConnection retrieved_driver \<noteq> None \<or> pool retrieved_driver \<noteq> None"
    by (simp add: retrieved_driver_simps)
  have e: "update_statement ''users'' [(''name'', Str ''Bob''), (''age'', Num 3)]
             [(''id'', Num 1), (''x'', Num 2)] =
           (''UPDATE \"users\" SET \"name\"=$1, \"age\"=$2  WHERE \"id\"=$3 AND \"x\"=$4'',
            [Str ''Bob'', Num 3, Num 1, Num 2])"
    by code_simp
  have l: "length (effects (snd (update 0 ''users'' [(''name'', Str ''Bob''), (''age'', Num 3)]
                   [(''id'', Num 1), (''x'', Num 2)] (Inr (Arr [])) retrieved_driver))) = 2"
    by (simp add: update_def e query_Inr retrieved_driver_simps emit_def)
  from update_statement_shape [OF a b c, of "''users''" 0 "Inr (Arr [])"] l
  have "effects (snd (update 0 ''users'' [(''name'', Str ''Bob''), (''age'', Num 3)]
                   [(''id'', Num 1), (''x'', Num 2)] (Inr (Arr [])) retrieved_driver)) =
     [LogQuery ''UPDATE \"users\" SET \"name\"=$1, \"age\"=$2  WHERE \"id\"=$3 AND \"x\"=$4'',
      ClientQuery 10 ''UPDATE \"users\" SET \"name\"=$1, \"age\"=$2  WHERE \"id\"=$3 AND \"x\"=$4''
        (Some [Str ''Bob'', Num 3, Num 1, Num 2])]"
    by (simp add: e retrieved_driver_simps)
  with a b show ?thesis by (simp add: retrieved_driver_simps)
qed

text \<open>
  Claim C5 as stated fails in the text of its example only: the statement handed to the
  client for \<^verbatim>\<open>update(conn, "users", {name: "Bob"}, {})\<close> ends in a space, so it is not
  the text \<^verbatim>\<open>UPDATE "users" SET "name"=$1\<close>.
\<close>

theorem update_trailing_space_counterexample:
  "effects (snd (update 0 ''users'' [(''name'', Str ''Bob'')] [] (Inr (Arr [])) retrieved_driver)) =
     [LogQuery ''UPDATE \"users\" SET \"name\"=$1 '',
      ClientQuery 10 ''UPDATE \"users\" SET \"name\"=$1 '' (Some [Str ''Bob''])] \<and>
   ''UPDATE \"users\" SET \"name\"=$1 '' \<noteq> ''UPDATE \"users\" SET \"name\"=$1'' \<and>
   fst (update_statement ''users'' [(''name'', Str ''Bob'')] []) \<noteq> ''UPDATE \"users\" SET \"name\"=$1''"
proof -
  have e: "update_statement ''users'' [(''name'', Str ''Bob'')] [] =
           (''UPDATE \"users\" SET \"name\"=$1 '', [Str ''Bob''])"
    by code_simp
  show ?thesis
    by (simp add: update_def e query_Inr retrieved_driver_simps emit_def)
qed

section \<open>Rewriting named parameters\<close>

lemma push_all_eq:
  "push_all built vs =
     (map (\<lambda>i. ''$'' @ decimal_of_nat (length built + i + 1)) [0..<length vs], built @ vs)"
proof (induction vs arbitrary: built)
  case Nil
  then show ?case by simp
next
  case (Cons v vs)
  have "map (\<lambda>i. ''$'' @ decimal_of_nat (length built + i + 1)) [0..<length (v # vs)] =
        (''$'' @ decimal_of_nat (length built + 1)) #
        map (\<lambda>i. ''$'' @ decimal_of_nat (length (built @ [v]) + i + 1)) [0..<length vs]"
    by (simp add: map_upt_Suc del: upt_Suc)
  then show ?case
    by (simp add: Cons.IH del: upt_Suc)
qed

lemma replacer_array:
  assumes "get_prop (Obj ps) k = Arr vs"
  shows "replacer ps built (CHR '':'' # k) =
     (join '', '' (map (\<lambda>i. ''$'' @ decimal_of_nat (length built + i + 1)) [0..<length vs]),
      built @ vs)"
  using assms by (simp add: replacer_def push_all_eq del: get_prop.simps)

lemma match_alt_shape:
  assumes "match_alt k s"
  shows "s = CHR '':'' # k @ drop (Suc (length k)) s"
proof -
  from assms have "take (Suc (length k)) s = CHR '':'' # k"
    by (simp add: match_alt_def Let_def)
  then show ?thesis
    by (metis append_Cons append_take_drop_id)
qed

lemma match_here_shape:
  assumes "match_here ps s = Some k"
  shows "s = CHR '':'' # k @ drop (Suc (length k)) s"
  using assms match_alt_shape by (auto simp: match_here_def find_Some_iff)

lemma match_here_first_char:
  "CHR '':'' \<noteq> c \<Longrightarrow> match_here ps (c # cs) = None"
  by (auto simp: match_here_def find_None_iff match_alt_def Let_def)

lemma replace_all_match:
  assumes "match_here ps s = Some k"
  shows "replace_all ps built s =
     (fst (replacer ps built (CHR '':'' # k)) @
        fst (replace_all ps (snd (replacer ps built (CHR '':'' # k))) (drop (Suc (length k)) s)),
      snd (replace_all ps (snd (replacer ps built (CHR '':'' # k))) (drop (Suc (length k)) s)))"
proof -
  from match_here_shape [OF assms] obtain cs where s: "s = CHR '':'' # cs"
    by blast
  show ?thesis
    using assms unfolding s
    by (simp add: case_prod_beta Let_def)
qed

lemma replace_all_prefix:
  "CHR '':'' \<notin> set pre \<Longrightarrow>
   replace_all ps built (pre @ s) =
     (pre @ fst (replace_all ps built s), snd (replace_all ps built s))"
  by (induction pre) (simp_all add: match_here_first_char case_prod_beta)

lemma replace_all_no_token:
  "CHR '':'' \<notin> set s \<Longrightarrow> replace_all ps built s = (s, built)"
  using replace_all_prefix [of s ps built "[]"] by simp


lemma decimal_small:
  "decimal_of_nat (Suc 0) = ''1''" "decimal_of_nat (Suc (Suc 0)) = ''2''"
  "decimal_of_nat (Suc (Suc (Suc 0))) = ''3''" "decimal_of_nat (Suc (Suc (Suc (Suc 0)))) = ''4''"
  by code_simp+

text \<open>
  Claim C6. \<^verbatim>\<open>escapeQueryWithParameters\<close> returns the text unchanged with no argument when
  the parameter object is absent or has no key. Where the scan finds the token of a key
  bound to an array of \<open>n\<close> values, it writes \<open>n\<close> placeholders joined by a comma and a
  space, numbered consecutively after the arguments built so far, appends the \<open>n\<close>
  values to the arguments and goes on behind the token; for the first token of a text
  the numbers are \<open>1\<close> to \<open>n\<close>. The text
  \<^verbatim>\<open>SELECT * FROM t WHERE x = :v1 AND y IN (:v2)\<close> with \<^verbatim>\<open>{v1: 5, v2: [1,2,3]}\<close> becomes
  \<^verbatim>\<open>SELECT * FROM t WHERE x = $1 AND y IN ($2, $3, $4)\<close> with arguments \<^verbatim>\<open>[5,1,2,3]\<close>.
\<close>

theorem escapeQueryWithParameters_rewrites:
  "escapeQueryWithParameters sql None = (sql, []) \<and>
   escapeQueryWithParameters sql (Some []) = (sql, []) \<and>
   (plain_keys ps \<and> match_here ps s = Some k \<and> get_prop (Obj ps) k = Arr vs \<longrightarrow>
      replace_all ps built s =
        (join '', '' (map (\<lambda>i. ''$'' @ decimal_of_nat (length built + i + 1)) [0..<length vs]) @
           fst (replace_all ps (built @ vs) (drop (Suc (length k)) s)),
         snd (replace_all ps (built @ vs) (drop (Suc (length k)) s)))) \<and>
   (plain_keys ps \<and> ps \<noteq> [] \<and> CHR '':'' \<notin> set pre \<and> match_here ps s = Some k \<and>
    get_prop (Obj ps) k = Arr vs \<longrightarrow>
      escapeQueryWithParameters (pre @ s) (Some ps) =
        (pre @ join '', '' (map (\<lambda>i. ''$'' @ decimal_of_nat (i + 1)) [0..<length vs]) @
           fst (replace_all ps vs (drop (Suc (length k)) s)),
         snd (replace_all ps vs (drop (Suc (length k)) s)))) \<and>
   escapeQueryWithParameters ''SELECT * FROM t WHERE x = :v1 AND y IN (:v2)''
       (Some [(''v1'', Num 5), (''v2'', Arr [Num 1, Num 2, Num 3])]) =
     (''SELECT * FROM t WHERE x = $1 AND y IN ($2, $3, $4)'', [Num 5, Num 1, Num 2, Num 3])"
proof -
  have absent: "escapeQueryWithParameters sql None = (sql, [])"
    and empty: "escapeQueryWithParameters sql (Some []) = (sql, [])"
    by (simp_all add: escapeQueryWithParameters_def keys_def)
  have here: "replace_all ps built s =
        (join '', '' (map (\<lambda>i. ''$'' @ decimal_of_nat (length built + i + 1)) [0..<length vs]) @
           fst (replace_all ps (built @ vs) (drop (Suc (length k)) s)),
         snd (replace_all ps (built @ vs) (drop (Suc (length k)) s)))"
    if "match_here ps s = Some k" and "get_prop (Obj ps) k = Arr vs" for built
    using replace_all_match [OF that(1)] replacer_array [OF that(2)] by simp
  have top: "escapeQueryWithParameters (pre @ s) (Some ps) =
        (pre @ join '', '' (map (\<lambda>i. ''$'' @ decimal_of_nat (i + 1)) [0..<length vs]) @
           fst (replace_all ps vs (drop (Suc (length k)) s)),
         snd (replace_all ps vs (drop (Suc (length k)) s)))"
    if "ps \<noteq> []" and "CHR '':'' \<notin> set pre" and "match_here ps s = Some k"
      and "get_prop (Obj ps) k = Arr vs"
    using that(1) replace_all_prefix [OF that(2)] here [OF that(3,4), of "[]"]
    by (simp add: escapeQueryWithParameters_def keys_def)
  have example: "escapeQueryWithParameters ''SELECT * FROM t WHERE x = :v1 AND y IN (:v2)''
       (Some [(''v1'', Num 5), (''v2'', Arr [Num 1, Num 2, Num 3])]) =
     (''SELECT * FROM t WHERE x = $1 AND y IN ($2, $3, $4)'', [Num 5, Num 1, Num 2, Num 3])"
    by code_simp
  show ?thesis
    using absent empty here top example by blast
qed

theorem escapeQueryWithParameters_rewrites_witness:
  "plain_keys [(''v2'', Arr [Num 1, Num 2, Num 3])] \<and>
   [(''v2'', Arr [Num 1, Num 2, Num 3])] \<noteq> [] \<and>
   CHR '':'' \<notin> set ''y IN ('' \<and>
   match_here [(''v2'', Arr [Num 1, Num 2, Num 3])] '':v2)'' = Some ''v2'' \<and>
   get_prop (Obj [(''v2'', Arr [Num 1, Num 2, Num 3])]) ''v2'' = Arr [Num 1, Num 2, Num 3] \<and>
   replace_all [(''v2'', Arr [Num 1, Num 2, Num 3])] [Num 5] '':v2)'' =
     (''$2, $3, $4)'', [Num 5, Num 1, Num 2, Num 3]) \<and>
   escapeQueryWithParameters ''y IN (:v2)'' (Some [(''v2'', Arr [Num 1, Num 2, Num 3])]) =
     (''y IN ($1, $2, $3)'', [Num 1, Num 2, Num 3])"
proof -
  let ?ps = "[(''v2'', Arr [Num 1, Num 2, Num 3])]"
  have a: "plain_keys ?ps"
    by (simp add: plain_keys_def keys_def regex_special_def)
  have b: "?ps \<noteq> []" and c: "CHR '':'' \<notin> set ''y IN (''"
    by simp_all
  have d: "match_here ?ps '':v2)'' = Some ''v2''"
    by code_simp
  have e: "get_prop (Obj ?ps) ''v2'' = Arr [Num 1, Num 2, Num 3]"
    by simp
  have rest: "replace_all ?ps bs '')'' = ('')'', bs)" for bs
    by (rule replace_all_no_token) simp
  note t = escapeQueryWithParameters_rewrites [where ps = ?ps and s = "'':v2)''" and k = "''v2''"
      and vs = "[Num 1, Num 2, Num 3]" and built = "[Num 5]" and pre = "''y IN (''"]
  from t a d e have f: "replace_all ?ps [Num 5] '':v2)'' =
     (''$2, $3, $4)'', [Num 5, Num 1, Num 2, Num 3])"
    by (simp add: rest decimal_small del: replace_all.simps)
  from t a b c d e have g: "escapeQueryWithParameters ''y IN (:v2)'' (Some ?ps) =
     (''y IN ($1, $2, $3)'', [Num 1, Num 2, Num 3])"
    by (simp add: rest decimal_small del: replace_all.simps)
  from a b c d e f g show ?thesis by blast
qed

text \<open>
  Claim C10. Where the scan finds the token of a key bound to an empty array, it writes
  nothing for the token and leaves the arguments as they are; a text with one such token
  and no other colon comes back without the token and with no argument. So
  \<^verbatim>\<open>IN (:list)\<close> with an empty list becomes \<^verbatim>\<open>IN ()\<close>.
\<close>

theorem empty_sequence_rewrites_to_nothing:
  "(plain_keys ps \<and> match_here ps s = Some k \<and> get_prop (Obj ps) k = Arr [] \<longrightarrow>
      replace_all ps built s = replace_all ps built (drop (Suc (length k)) s)) \<and>
   (plain_keys ps \<and> ps \<noteq> [] \<and> CHR '':'' \<notin> set pre \<and> CHR '':'' \<notin> set post \<and>
    match_here ps (CHR '':'' # k @ post) = Some k \<and> get_prop (Obj ps) k = Arr [] \<longrightarrow>
      escapeQueryWithParameters (pre @ CHR '':'' # k @ post) (Some ps) = (pre @ post, [])) \<and>
   escapeQueryWithParameters ''SELECT * FROM t WHERE y IN (:list)'' (Some [(''list'', Arr [])]) =
     (''SELECT * FROM t WHERE y IN ()'', [])"
proof -
  have here: "replace_all ps built s = replace_all ps built (drop (Suc (length k)) s)"
    if "match_here ps s = Some k" and "get_prop (Obj ps) k = Arr []" for built s
    using replace_all_match [OF that(1)] replacer_array [OF that(2)] by simp
  have top: "escapeQueryWithParameters (pre @ CHR '':'' # k @ post) (Some ps) = (pre @ post, [])"
    if "ps \<noteq> []" and "CHR '':'' \<notin> set pre" and "CHR '':'' \<notin> set post"
      and "match_here ps (CHR '':'' # k @ post) = Some k" and "get_prop (Obj ps) k = Arr []"
    using that(1) replace_all_prefix [OF that(2)] here [OF that(4,5), of "[]"]
      replace_all_no_token [OF that(3)]
    by (simp add: escapeQueryWithParameters_def keys_def)
  have example: "escapeQueryWithParameters ''SELECT * FROM t WHERE y IN (:list)''
      (Some [(''list'', Arr [])]) = (''SELECT * FROM t WHERE y IN ()'', [])"
    by code_simp
  show ?thesis
    using here top example by blast
qed

theorem empty_sequence_rewrites_to_nothing_witness:
  "plain_keys [(''id'', Num 7), (''list'', Arr [])] \<and>
   [(''id'', Num 7), (''list'', Arr [])] \<noteq> [] \<and>
   CHR '':'' \<notin> set ''y IN ('' \<and>
   CHR '':'' \<notin> set '') AND z'' \<and>
   match_here [(''id'', Num 7), (''list'', Arr [])] '':list) AND z'' = Some ''list'' \<and>
   get_prop (Obj [(''id'', Num 7), (''list'', Arr [])]) ''list'' = Arr [] \<and>
   replace_all [(''id'', Num 7), (''list'', Arr [])] [Num 7] '':list) AND z'' =
     ('') AND z'', [Num 7]) \<and>
   escapeQueryWithParameters ''y IN (:list) AND z'' (Some [(''id'', Num 7), (''list'', Arr [])]) =
     (''y IN () AND z'', [])"
proof -
  let ?ps = "[(''id'', Num 7), (''list'', Arr [])]"
  have a: "plain_keys ?ps"
    by (simp add: plain_keys_def keys_def regex_special_def)
  have b: "?ps \<noteq> []" and c: "CHR '':'' \<notin> set ''y IN (''" and c': "CHR '':'' \<notin> set '') AND z''"
    by simp_all
  have d: "match_here ?ps '':list) AND z'' = Some ''list''"
    by code_simp
  have e: "get_prop (Obj ?ps) ''list'' = Arr []"
    by simp
  have rest: "replace_all ?ps bs '') AND z'' = ('') AND z'', bs)" for bs
    by (rule replace_all_no_token) simp
  note t = empty_sequence_rewrites_to_nothing [where ps = ?ps and s = "'':list) AND z''"
      and k = "''list''" and built = "[Num 7]" and pre = "''y IN (''" and post = "'') AND z''"]
  from t a d e have f: "replace_all ?ps [Num 7] '':list) AND z'' = ('') AND z'', [Num 7])"
    by (simp add: rest del: replace_all.simps)
  from t a b c c' d e have g: "escapeQueryWithParameters ''y IN (:list) AND z'' (Some ?ps) =
     (''y IN () AND z'', [])"
    by (simp del: replace_all.simps)
  from a b c c' d e f g show ?thesis by blast
qed

section \<open>Reading a printed number back\<close>












section \<open>Adding one to a double\<close>

lemma bit_length_two_53:
  "bit_length 9007199254740992 = 54" "bit_length 9007199254740993 = 54"
  by (simp_all add: bit_length.simps)

lemma round_double_two_53:
  "round_double 9007199254740992 = 9007199254740992"
  "round_double (- 9007199254740992) = - 9007199254740992"
  "round_double 9007199254740993 = 9007199254740992"
  by (simp_all add: round_double_def Let_def bit_length_two_53)

lemma round_double_exact: "\<bar>x\<bar> \<le> 9007199254740992 \<Longrightarrow> round_double x = x"
proof -
  assume a: "\<bar>x\<bar> \<le> 9007199254740992"
  consider "\<bar>x\<bar> < 9007199254740992" | "x = 9007199254740992" | "x = - 9007199254740992"
    using a by linarith
  then show ?thesis
  proof cases
    case 1
    then have "nat \<bar>x\<bar> < 9007199254740992" by linarith
    then show ?thesis by (simp add: round_double_def Let_def)
  next
    case 2
    then show ?thesis by (simp only: round_double_two_53)
  next
    case 3
    then show ?thesis by (simp only: round_double_two_53)
  qed
qed

lemma plus_one_exact: "\<bar>m\<bar> < 9007199254740992 \<Longrightarrow> plus_one (Num m) = Num (m + 1)"
  by (simp add: round_double_exact)


lemma plus_one_two_53: "plus_one (Num 9007199254740992) = Num 9007199254740992"
  by (simp add: round_double_two_53)

section \<open>The closure table\<close>












section \<open>Persisting and hydrating\<close>

lemma js_split_nonempty: "js_split sep s \<noteq> []"
  by (induction s) (auto split: list.split)

lemma js_split_no_sep: "sep \<notin> set s \<Longrightarrow> js_split sep s = [s]"
  by (induction s) auto

lemma js_split_append:
  "sep \<notin> set x \<Longrightarrow> js_split sep (x @ sep # rest) = x # js_split sep rest"
  using js_split_nonempty [of sep rest]
  by (induction x) (auto split: list.split)

lemma js_split_join:
  assumes "ss \<noteq> []" and "\<forall>s \<in> set ss. sep \<notin> set s"
  shows "js_split sep (join [sep] ss) = ss"
  using assms
  by (induction "[sep]" ss rule: join.induct) (simp_all add: js_split_no_sep js_split_append)

lemma roundtrip_boolean: "roundtrip h (Bool b) BOOLEAN = Inr (Bool b)"
  by (simp add: roundtrip_def preparePersistentValue_def prepareHydratedValue_def)

lemma roundtrip_simple_array:
  assumes "ss \<noteq> []" and "\<forall>s \<in> set ss. CHR '','' \<notin> set s"
  shows "roundtrip h (Arr (map Str ss)) SIMPLE_ARRAY = Inr (Arr (map Str ss))"
  using js_split_join [OF assms]
  by (simp add: roundtrip_def preparePersistentValue_def prepareHydratedValue_def comp_def)

lemma roundtrip_other: "roundtrip h v (OTHER t) = Inr v"
  by (simp add: roundtrip_def preparePersistentValue_def prepareHydratedValue_def)

text \<open>
  Claim C7 at a \<^verbatim>\<open>simple-array\<close> column and the empty array. The array is persisted as
  the empty string, and \<^verbatim>\<open>"".split(",")\<close> is the array of one empty string: hydrating
  what was persisted does not give the empty array back. (A boolean is recovered
  exactly, and so is a non-empty array of strings without a comma, see
  \<open>roundtrip_boolean\<close> and \<open>roundtrip_simple_array\<close>.)
\<close>

theorem empty_simple_array_not_recovered:
  "preparePersistentValue h (Arr []) SIMPLE_ARRAY = Inr (Str '''') \<and>
   prepareHydratedValue h (Str '''') SIMPLE_ARRAY = Inr (Arr [Str '''']) \<and>
   roundtrip h (Arr []) SIMPLE_ARRAY = Inr (Arr [Str '''']) \<and>
   roundtrip h (Arr []) SIMPLE_ARRAY \<noteq> Inr (Arr [])"
  by (simp add: roundtrip_def preparePersistentValue_def prepareHydratedValue_def)

end
